theory Spec2Isabelle
  imports Main "HOL-Library.Word"
begin

section \<open>Go errors and formatting\<close>

text \<open>
  A Go \<open>error\<close> value is modelled by its message (what \<open>err.Error()\<close> returns) and the
  error it wraps, if any (what \<open>errors.Unwrap\<close> returns). A nil error is \<open>None\<close> of
  \<open>go_error option\<close>.
\<close>

datatype go_error = GoError (Error: string) (Unwrap: "go_error option")

text \<open>\<open>fmt.Errorf(msg)\<close> with no \<open>%w\<close> verb: a plain error.\<close>

definition Errorf :: "string \<Rightarrow> go_error" where
  "Errorf msg = GoError msg None"

text \<open>
  \<open>fmt.Errorf(prefix + "%w", err)\<close>: every wrapping format of the repository ends in
  \<open>: %w\<close>, so the message is the formatted prefix followed by the wrapped message.
\<close>

definition Errorf_w :: "string \<Rightarrow> go_error \<Rightarrow> go_error" where
  "Errorf_w prefix err = GoError (prefix @ Error err) (Some err)"

text \<open>The verb \<open>%d\<close> on an \<open>int\<close>: decimal digits, with a minus sign when negative.\<close>

definition digit_char :: "nat \<Rightarrow> char" where
  "digit_char d = ''0123456789'' ! d"

function fmt_nat :: "nat \<Rightarrow> string" where
  "fmt_nat n = (if n < 10 then [digit_char n] else fmt_nat (n div 10) @ [digit_char (n mod 10)])"
  by pat_completeness auto
termination
  by (relation "measure id") auto

declare fmt_nat.simps [simp del]

definition fmt_d :: "int \<Rightarrow> string" where
  "fmt_d i = (if i < 0 then CHR ''-'' # fmt_nat (nat (- i)) else fmt_nat (nat i))"

section \<open>Retry policy (internal/api/api.go, retryWithExponentialBackoff)\<close>

text \<open>
  \<open>time.Duration\<close> is an \<open>int64\<close> count of nanoseconds; its arithmetic wraps.
\<close>

type_synonym duration = "64 word"

definition Second :: duration where
  "Second = 1000000000"

text \<open>
  The configuration read through viper: \<open>RETRY_MAX\<close> as \<open>viper.GetInt\<close> returns it, and
  the result of \<open>time.ParseDuration(viper.GetString("RETRY_DELAY"))\<close>, \<open>None\<close> when parsing
  fails.
\<close>

record retry_config =
  RETRY_MAX :: int
  RETRY_DELAY :: "duration option"

text \<open>
  What one run of the policy did: the error returned (\<open>None\<close> is Go's nil), the number of
  times \<open>operation()\<close> was invoked, and the backoff waits entered, in order.
\<close>

record retry_run =
  result :: "go_error option"
  attempts :: nat
  waits :: "duration list"

text \<open>
  The loop \<open>for attempt := 1; attempt <= maxRetries; attempt++\<close>. The operation is a
  closure with effects; \<open>operation n\<close> is what its \<open>n\<close>-th invocation returns (\<open>n\<close> counts
  from 1, as \<open>attempt\<close> does). \<open>ctx_done n\<close> is the outcome of the \<open>select\<close> entered after
  the \<open>n\<close>-th failed attempt: \<open>Some e\<close> when the \<open>ctx.Done()\<close> case is taken, with
  \<open>e = ctx.Err()\<close>, and \<open>None\<close> when the timer \<open>time.After(waitTime)\<close> fires first.
  \<open>calls\<close> counts the invocations made so far and \<open>ws\<close> collects the waits.
  The loop counter is a Go \<open>int\<close> that counts up to \<open>maxRetries\<close>; it is a \<open>nat\<close> here,
  which is exact as long as \<open>RETRY_MAX\<close> is below the largest \<open>int\<close>. \<open>1<<uint(attempt-1)\<close> is a shift of a \<open>time.Duration\<close>, so it is a shift of a
  64-bit word, and the product with \<open>retryDelay\<close> wraps.
\<close>

function retry_loop ::
  "(nat \<Rightarrow> go_error option) \<Rightarrow> (nat \<Rightarrow> go_error option) \<Rightarrow> nat \<Rightarrow> duration \<Rightarrow>
   nat \<Rightarrow> go_error option \<Rightarrow> nat \<Rightarrow> duration list \<Rightarrow> retry_run" where
  "retry_loop operation ctx_done maxRetries retryDelay attempt lastErr calls ws =
     (if attempt \<le> maxRetries then
        (case operation attempt of
           None \<Rightarrow> \<lparr>result = None, attempts = Suc calls, waits = ws\<rparr>
         | Some err \<Rightarrow>
             if attempt < maxRetries then
               (let waitTime = retryDelay * push_bit (attempt - 1) 1 in
                case ctx_done attempt of
                  Some cerr \<Rightarrow>
                    \<lparr>result = Some (Errorf_w ''operation cancelled: '' cerr),
                     attempts = Suc calls, waits = ws @ [waitTime]\<rparr>
                | None \<Rightarrow>
                    retry_loop operation ctx_done maxRetries retryDelay (Suc attempt)
                      (Some err) (Suc calls) (ws @ [waitTime]))
             else
               retry_loop operation ctx_done maxRetries retryDelay (Suc attempt)
                 (Some err) (Suc calls) ws)
      else
        \<lparr>result = Some
           (case lastErr of
              Some e \<Rightarrow>
                Errorf_w (''operation failed after '' @ fmt_d (int maxRetries) @ '' attempts: '') e
            | None \<Rightarrow>
                Errorf (''operation failed after '' @ fmt_d (int maxRetries) @
                        '' attempts: %!w(<nil>)'')),
         attempts = calls, waits = ws\<rparr>)"
  by pat_completeness auto
termination
  by (relation "measure (\<lambda>(operation, ctx_done, maxRetries, retryDelay, attempt, lastErr, calls, ws).
        Suc maxRetries - attempt)") auto

declare retry_loop.simps [simp del]

text \<open>\<open>maxRetries\<close> and \<open>retryDelay\<close> as the function derives them from the configuration.\<close>

definition maxRetries_of :: "retry_config \<Rightarrow> int" where
  "maxRetries_of cfg = (if RETRY_MAX cfg \<le> 0 then 3 else RETRY_MAX cfg)"

definition retryDelay_of :: "retry_config \<Rightarrow> duration" where
  "retryDelay_of cfg = (case RETRY_DELAY cfg of None \<Rightarrow> Second | Some d \<Rightarrow> d)"

definition retryWithExponentialBackoff ::
  "retry_config \<Rightarrow> (nat \<Rightarrow> go_error option) \<Rightarrow> (nat \<Rightarrow> go_error option) \<Rightarrow> retry_run" where
  "retryWithExponentialBackoff cfg ctx_done operation =
     retry_loop operation ctx_done (nat (maxRetries_of cfg)) (retryDelay_of cfg) 1 None 0 []"

text \<open>
  \<open>retryWithDefaultContext\<close> runs the policy under a fresh context with a five-minute
  deadline; \<open>ctx_done\<close> stands for that context.
\<close>

definition retryWithDefaultContext ::
  "retry_config \<Rightarrow> (nat \<Rightarrow> go_error option) \<Rightarrow> (nat \<Rightarrow> go_error option) \<Rightarrow> retry_run" where
  "retryWithDefaultContext cfg ctx_done operation =
     retryWithExponentialBackoff cfg ctx_done operation"

section \<open>GitHub client construction (initializeGitHubClient)\<close>

record GitHubClientConfig =
  Token :: string
  Hostname :: string

definition defaultVariableVisibility :: string where
  "defaultVariableVisibility = ''private''"

definition EntityTypeOrg :: string where
  "EntityTypeOrg = ''organization''"

definition EntityTypeRepository :: string where
  "EntityTypeRepository = ''repository''"

text \<open>
  \<open>github.ActionsVariable\<close> and \<open>github.ActionsVariables\<close> (go-github v66), with the fields
  the repository reads or writes. \<open>Visibility\<close> is a \<open>*string\<close>; the elements of
  \<open>Variables\<close> are pointers and may be nil.
\<close>

record ActionsVariable =
  Name :: string
  Value :: string
  Visibility :: "string option"

record ActionsVariables =
  Variables :: "ActionsVariable option list"

text \<open>
  \<open>github.Repository\<close> (only \<open>Name\<close>, a \<open>*string\<close>, is read), \<open>github.Response\<close> (only
  \<open>NextPage\<close> is read) and \<open>github.RepositoryListByOrgOptions\<close> (only the embedded
  \<open>ListOptions\<close> are set; every other field keeps its zero value).
\<close>

datatype Repository = Repository (repo_Name: "string option")

record Response =
  NextPage :: int

record RepositoryListByOrgOptions =
  Page :: int
  PerPage :: int

text \<open>
  \<open>client.Repositories.Get\<close> returns \<open>(repo, resp, err)\<close>; go-github returns a non-nil
  response whenever the error is nil, so the outcome is either the error or the status
  code of the response.
\<close>

datatype get_result = GetError go_error | GetResponse int

text \<open>
  The world outside the program during one call of an API function: the two library
  calls of client construction that can fail, the remote endpoints, and the context and
  configuration of the retry policy. A remote call may answer differently each time, so
  an endpoint takes the number of the invocation (from 1) as an argument.
\<close>

record remote =
  url_Parse_error :: "string \<Rightarrow> go_error option"
  WithEnterpriseURLs_error :: "string \<Rightarrow> go_error option"
  Repositories_Get :: "string \<Rightarrow> string \<Rightarrow> nat \<Rightarrow> get_result"
  Actions_CreateOrgVariable :: "string \<Rightarrow> ActionsVariable \<Rightarrow> nat \<Rightarrow> go_error option"
  Actions_CreateRepoVariable :: "string \<Rightarrow> string \<Rightarrow> ActionsVariable \<Rightarrow> nat \<Rightarrow> go_error option"
  Actions_ListOrgVariables :: "string \<Rightarrow> nat \<Rightarrow> ActionsVariables option \<times> go_error option"
  Actions_ListRepoVariables ::
    "string \<Rightarrow> string \<Rightarrow> nat \<Rightarrow> ActionsVariables option \<times> go_error option"
  Repositories_ListByOrg ::
    "string \<Rightarrow> nat \<Rightarrow> RepositoryListByOrgOptions \<Rightarrow>
     Repository option list option \<times> Response option \<times> go_error option"
  retry_ctx_done :: "nat \<Rightarrow> go_error option"
  viper_retry :: retry_config

text \<open>The remote calls a function made, in order.\<close>

datatype api_call =
    GetRepository string string
  | CreateOrgVariable string ActionsVariable
  | CreateRepoVariable string string ActionsVariable

definition extractHostname :: "string list \<Rightarrow> string" where
  "extractHostname hostname = (if length hostname > 0 then hostname ! 0 else [])"

text \<open>
  The client is determined by its configuration, so a successful construction returns the
  configuration. When \<open>url.Parse\<close> fails it returns a nil \<open>*url.URL\<close>, which \<open>%s\<close> prints
  as \<open><nil>\<close>.
\<close>

definition initializeGitHubClient :: "remote \<Rightarrow> GitHubClientConfig \<Rightarrow> go_error + GitHubClientConfig" where
  "initializeGitHubClient rm config =
     (if Token config = [] then Inl (Errorf ''GitHub token is required'')
      else if Hostname config \<noteq> [] then
        (case url_Parse_error rm (Hostname config) of
           Some err \<Rightarrow> Inl (Errorf_w ''invalid hostname URL provided (<nil>): '' err)
         | None \<Rightarrow>
             (case WithEnterpriseURLs_error rm (Hostname config) of
                Some err \<Rightarrow>
                  Inl (Errorf_w (''failed to configure enterprise URLs for '' @ Hostname config @ '': '') err)
              | None \<Rightarrow> Inr config))
      else Inr config)"

section \<open>Variable reader (parseGitHubVariable, fetchGitHubVariables)\<close>

definition parseGitHubVariable :: "ActionsVariable option \<Rightarrow> string \<Rightarrow> (string \<rightharpoonup> string) option" where
  "parseGitHubVariable variable scope =
     (case variable of
        None \<Rightarrow> None
      | Some v \<Rightarrow>
          if Name v = [] then None
          else Some [''Name'' \<mapsto> Name v, ''Value'' \<mapsto> Value v, ''Scope'' \<mapsto> scope,
                     ''Visibility'' \<mapsto>
                       (case Visibility v of Some vis \<Rightarrow> vis | None \<Rightarrow> defaultVariableVisibility)])"

text \<open>
  The closure passed to the retry policy assigns the captured \<open>variables\<close> on every
  invocation, so after the policy returns \<open>variables\<close> holds what the last invocation
  returned (and nil if there was none).
\<close>

definition fetchGitHubVariables ::
  "remote \<Rightarrow> string \<Rightarrow> string \<Rightarrow> string \<Rightarrow> string \<Rightarrow> string list \<Rightarrow>
   go_error + (string \<rightharpoonup> string) list" where
  "fetchGitHubVariables rm entityType org repo token hostname =
     (if org = [] then Inl (Errorf ''organization name is required'')
      else if entityType = EntityTypeRepository \<and> repo = [] then
        Inl (Errorf ''repository name is required'')
      else
        (case initializeGitHubClient rm \<lparr>Token = token, Hostname = extractHostname hostname\<rparr> of
           Inl err \<Rightarrow> Inl (Errorf_w ''failed to initialize GitHub client: '' err)
         | Inr client \<Rightarrow>
             (let call = (\<lambda>n. if entityType = EntityTypeOrg then Actions_ListOrgVariables rm org n
                               else Actions_ListRepoVariables rm org repo n);
                  run = retryWithDefaultContext (viper_retry rm) (retry_ctx_done rm)
                          (\<lambda>n. snd (call n));
                  variables = (if attempts run = 0 then None else fst (call (attempts run)))
              in case result run of
                   Some err \<Rightarrow> Inl (Errorf_w (''failed to fetch '' @ entityType @ '' variables: '') err)
                 | None \<Rightarrow>
                     (case variables of
                        None \<Rightarrow>
                          Inl (Errorf (''no variables data returned for '' @ entityType @ '' '' @ org))
                      | Some vars \<Rightarrow>
                          (let scope = (if entityType = EntityTypeRepository then repo else entityType)
                           in Inr (List.map_filter (\<lambda>variable. parseGitHubVariable variable scope)
                                     (Variables vars)))))))"

definition FetchOrgVariables ::
  "remote \<Rightarrow> string \<Rightarrow> string \<Rightarrow> string list \<Rightarrow> go_error + (string \<rightharpoonup> string) list" where
  "FetchOrgVariables rm org token hostname =
     fetchGitHubVariables rm EntityTypeOrg org [] token hostname"

definition FetchRepoVariables ::
  "remote \<Rightarrow> string \<Rightarrow> string \<Rightarrow> string \<Rightarrow> string list \<Rightarrow> go_error + (string \<rightharpoonup> string) list" where
  "FetchRepoVariables rm org repo token hostname =
     fetchGitHubVariables rm EntityTypeRepository org repo token hostname"

section \<open>Variable writer (doesRepositoryExist, addGitHubVariable)\<close>

text \<open>
  The format \<open>"repository %s does not exist in organization %s"\<close>, which \<open>addGitHubVariable\<close>
  passes to \<open>fmt.Errorf\<close> and \<open>SyncVariables\<close> to \<open>fmt.Sprintf\<close>.
\<close>

definition not_found_message :: "string \<Rightarrow> string \<Rightarrow> string" where
  "not_found_message repo org = ''repository '' @ repo @ '' does not exist in organization '' @ org"

text \<open>
  The existence probe: one call of \<open>client.Repositories.Get\<close> under a 30-second context.
  The result is Go's pair \<open>(bool, error)\<close> together with the remote calls made.
\<close>

definition doesRepositoryExist ::
  "remote \<Rightarrow> string \<Rightarrow> string \<Rightarrow> string \<Rightarrow> string list \<Rightarrow> (bool \<times> go_error option) \<times> api_call list" where
  "doesRepositoryExist rm org repo token hostname =
     (case initializeGitHubClient rm \<lparr>Token = token, Hostname = extractHostname hostname\<rparr> of
        Inl err \<Rightarrow> ((False, Some (Errorf_w ''failed to initialize GitHub client: '' err)), [])
      | Inr client \<Rightarrow>
          (case Repositories_Get rm org repo 1 of
             GetError err \<Rightarrow> ((False, None), [GetRepository org repo])
           | GetResponse StatusCode \<Rightarrow> ((StatusCode = 200, None), [GetRepository org repo])))"

definition addGitHubVariable ::
  "remote \<Rightarrow> string \<Rightarrow> string \<Rightarrow> string \<Rightarrow> string \<Rightarrow> string \<Rightarrow> string \<Rightarrow> string \<Rightarrow> string list \<Rightarrow>
   go_error option \<times> api_call list" where
  "addGitHubVariable rm entityType org repo name val visibility token hostname =
     (if org = [] \<or> name = [] then
        (Some (Errorf ''organization name and variable name are required''), [])
      else if entityType = EntityTypeRepository \<and> repo = [] then
        (Some (Errorf ''repository name is required''), [])
      else
        (case (if entityType = EntityTypeRepository then
                 (case doesRepositoryExist rm org repo token hostname of
                    ((exists, Some err), calls) \<Rightarrow>
                      (Some (Errorf_w ''failed to check repository existence: '' err), calls)
                  | ((exists, None), calls) \<Rightarrow>
                      if \<not> exists then
                        (Some (Errorf (not_found_message repo org)), calls)
                      else (None, calls))
               else (None, [])) of
           (Some err, calls) \<Rightarrow> (Some err, calls)
         | (None, calls) \<Rightarrow>
             (case initializeGitHubClient rm \<lparr>Token = token, Hostname = extractHostname hostname\<rparr> of
                Inl err \<Rightarrow> (Some (Errorf_w ''failed to initialize GitHub client: '' err), calls)
              | Inr client \<Rightarrow>
                  (let visibility' = (if visibility = [] then defaultVariableVisibility else visibility);
                       variable = \<lparr>Name = name, Value = val, Visibility = Some visibility'\<rparr>;
                       run = retryWithDefaultContext (viper_retry rm) (retry_ctx_done rm)
                               (\<lambda>n. if entityType = EntityTypeOrg
                                     then Actions_CreateOrgVariable rm org variable n
                                     else Actions_CreateRepoVariable rm org repo variable n);
                       created = replicate (attempts run)
                                   (if entityType = EntityTypeOrg then CreateOrgVariable org variable
                                    else CreateRepoVariable org repo variable)
                   in case result run of
                        Some err \<Rightarrow>
                          (Some (Errorf_w (''failed to create '' @ entityType @ '' variable '' @ name @ '': '') err),
                           calls @ created)
                      | None \<Rightarrow> (None, calls @ created)))))"

definition AddOrgVariable ::
  "remote \<Rightarrow> string \<Rightarrow> string \<Rightarrow> string \<Rightarrow> string \<Rightarrow> string \<Rightarrow> string list \<Rightarrow>
   go_error option \<times> api_call list" where
  "AddOrgVariable rm org name val visibility token hostname =
     addGitHubVariable rm EntityTypeOrg org [] name val visibility token hostname"

definition AddRepoVariable ::
  "remote \<Rightarrow> string \<Rightarrow> string \<Rightarrow> string \<Rightarrow> string \<Rightarrow> string \<Rightarrow> string \<Rightarrow> string list \<Rightarrow>
   go_error option \<times> api_call list" where
  "AddRepoVariable rm org repo name val visibility token hostname =
     addGitHubVariable rm EntityTypeRepository org repo name val visibility token hostname"

section \<open>Repository listing (listPaginatedRepositories, FetchAllRepositories)\<close>

text \<open>
  The names of one page: \<open>if repo != nil && repo.Name != nil\<close>, append \<open>*repo.Name\<close>.
\<close>

definition page_names :: "Repository option list \<Rightarrow> string list" where
  "page_names repos =
     List.map_filter (\<lambda>repo. case repo of None \<Rightarrow> None | Some r \<Rightarrow> repo_Name r) repos"

text \<open>
  The loop \<open>for { ... }\<close> of \<open>listPaginatedRepositories\<close>. It ends only when \<open>fetch\<close> fails,
  returns a nil payload or reports no next page, so it is a partial function: \<open>None\<close>
  means that the loop never returns. \<open>fetch n opts\<close> is what the \<open>n\<close>-th invocation of the
  closure returns for \<open>opts\<close>; \<open>requested\<close> collects the options of the invocations made.
\<close>

partial_function (option) list_pages ::
  "(nat \<Rightarrow> RepositoryListByOrgOptions \<Rightarrow>
      Repository option list option \<times> Response option \<times> go_error option) \<Rightarrow>
   nat \<Rightarrow> RepositoryListByOrgOptions \<Rightarrow> string list \<Rightarrow> RepositoryListByOrgOptions list \<Rightarrow>
   ((go_error + string list) \<times> RepositoryListByOrgOptions list) option" where
  "list_pages fetch n opts allResources requested =
     (case fetch n opts of (repos, resp, err) \<Rightarrow>
        (case err of
           Some e \<Rightarrow> Some (Inl e, requested @ [opts])
         | None \<Rightarrow>
             (case repos of
                None \<Rightarrow> Some (Inl (Errorf ''no data returned''), requested @ [opts])
              | Some rs \<Rightarrow>
                  (case resp of
                     None \<Rightarrow> Some (Inr (allResources @ page_names rs), requested @ [opts])
                   | Some r \<Rightarrow>
                       if NextPage r = 0 then
                         Some (Inr (allResources @ page_names rs), requested @ [opts])
                       else
                         list_pages fetch (Suc n) (opts\<lparr>Page := NextPage r\<rparr>)
                           (allResources @ page_names rs) (requested @ [opts])))))"

definition listPaginatedRepositories ::
  "(nat \<Rightarrow> RepositoryListByOrgOptions \<Rightarrow>
      Repository option list option \<times> Response option \<times> go_error option) \<Rightarrow>
   ((go_error + string list) \<times> RepositoryListByOrgOptions list) option" where
  "listPaginatedRepositories fetch = list_pages fetch 1 \<lparr>Page = 0, PerPage = 100\<rparr> [] []"

definition FetchAllRepositories ::
  "remote \<Rightarrow> string \<Rightarrow> string \<Rightarrow> string list \<Rightarrow> (go_error + string list) option" where
  "FetchAllRepositories rm org token hostname =
     (case initializeGitHubClient rm \<lparr>Token = token, Hostname = extractHostname hostname\<rparr> of
        Inl err \<Rightarrow> Some (Inl (Errorf_w ''failed to initialize GitHub client: '' err))
      | Inr client \<Rightarrow> map_option fst (listPaginatedRepositories (Repositories_ListByOrg rm org)))"

section \<open>Sync orchestrator (pkg/sync, SyncVariables)\<close>

text \<open>How a command ends: it returns an error or nil, calls \<open>os.Exit\<close>, or panics.\<close>

datatype outcome = Returned "go_error option" | Exited int | Panicked string

record Stats =
  total :: int
  succeeded :: int
  failed :: int
  skipped :: int

definition no_stats :: Stats where
  "no_stats = \<lparr>total = 0, succeeded = 0, failed = 0, skipped = 0\<rparr>"

text \<open>
  What \<open>SyncVariables\<close> reads from outside: four viper strings, whether \<open>os.Open\<close> fails,
  what \<open>csv.Reader.ReadAll\<close> returns, and the world during the processing of each record
  of \<open>records[1:]\<close> (numbered from 0).
\<close>

record sync_env =
  viper_file :: string
  viper_target_hostname :: string
  viper_target_organization :: string
  viper_target_token :: string
  os_Open_error :: "go_error option"
  csv_ReadAll :: "go_error + string list list"
  sync_remote :: "nat \<Rightarrow> remote"

text \<open>The body of the loop over \<open>records[1:]\<close>.\<close>

definition sync_record :: "remote \<Rightarrow> string \<Rightarrow> string \<Rightarrow> string \<Rightarrow> string list \<Rightarrow> Stats \<Rightarrow> Stats" where
  "sync_record rm targetOrg targetToken hostname record stats0 =
     (let stats = stats0\<lparr>total := total stats0 + 1\<rparr> in
      if length record < 4 then stats\<lparr>skipped := skipped stats + 1\<rparr>
      else
        (let variableName = record ! 0; variableValue = record ! 1;
             scope = record ! 2; visibility = record ! 3
         in if scope = ''organization'' then
              (case fst (AddOrgVariable rm targetOrg variableName variableValue visibility
                           targetToken [hostname]) of
                 Some err \<Rightarrow> stats\<lparr>failed := failed stats + 1\<rparr>
               | None \<Rightarrow> stats\<lparr>succeeded := succeeded stats + 1\<rparr>)
            else
              (case fst (AddRepoVariable rm targetOrg scope variableName variableValue visibility
                           targetToken [hostname]) of
                 Some err \<Rightarrow>
                   if Error err = not_found_message scope targetOrg
                   then stats\<lparr>skipped := skipped stats + 1\<rparr>
                   else stats\<lparr>failed := failed stats + 1\<rparr>
               | None \<Rightarrow> stats\<lparr>succeeded := succeeded stats + 1\<rparr>)))"

fun sync_records ::
  "(nat \<Rightarrow> remote) \<Rightarrow> string \<Rightarrow> string \<Rightarrow> string \<Rightarrow> nat \<Rightarrow> string list list \<Rightarrow> Stats \<Rightarrow> Stats" where
  "sync_records rms targetOrg targetToken hostname i [] stats = stats"
| "sync_records rms targetOrg targetToken hostname i (record # rest) stats =
     sync_records rms targetOrg targetToken hostname (Suc i) rest
       (sync_record (rms i) targetOrg targetToken hostname record stats)"

text \<open>
  \<open>records[1:]\<close> panics when \<open>records\<close> is empty (\<open>ReadAll\<close> returns no rows and no error for
  an empty file). The result pairs the outcome with the counters of the summary.
\<close>

definition SyncVariables :: "sync_env \<Rightarrow> outcome \<times> Stats" where
  "SyncVariables env =
     (let inputFile = viper_file env; hostname = viper_target_hostname env;
          targetOrg = viper_target_organization env; targetToken = viper_target_token env
      in if inputFile = [] \<or> targetOrg = [] \<or> targetToken = [] then
           (Returned (Some (Errorf
              ''missing required parameters: mapping file, target organization, or target token'')),
            no_stats)
         else
           (case os_Open_error env of
              Some err \<Rightarrow>
                (Returned (Some (Errorf (''cannot open file '' @ inputFile @ '': '' @ Error err))),
                 no_stats)
            | None \<Rightarrow>
                (case csv_ReadAll env of
                   Inl err \<Rightarrow>
                     (Returned (Some (Errorf (''cannot read file '' @ inputFile @ '': '' @ Error err))),
                      no_stats)
                 | Inr records \<Rightarrow>
                     if length records < 1 then
                       (Panicked ''runtime error: slice bounds out of range [1:0]'', no_stats)
                     else
                       (let stats = sync_records (sync_remote env) targetOrg targetToken hostname 0
                                      (drop 1 records) no_stats
                        in if failed stats > 0 then (Exited 1, stats)
                           else (Returned None, stats)))))"

section \<open>Export orchestrator (pkg/export, ExportVariables)\<close>

text \<open>
  What \<open>ExportVariables\<close> reads from outside: three viper strings, the world during the
  fetch of the organization variables, during the listing of the repositories and during
  the fetch of each repository's variables (numbered from 0), whether \<open>os.Create\<close> fails,
  and whether the \<open>n\<close>-th call of \<open>writer.Write\<close> fails (the header is call 0).
\<close>

record export_env =
  viper_source_organization :: string
  viper_source_token :: string
  viper_source_hostname :: string
  org_remote :: remote
  list_remote :: remote
  repo_remote :: "nat \<Rightarrow> remote"
  os_Create_error :: "go_error option"
  writer_Write_error :: "nat \<Rightarrow> go_error option"

text \<open>
  What a run did: how it ended, and the name of the file created with the rows passed to
  \<open>writer.Write\<close> without error, in order (\<open>None\<close> when no file was created).
\<close>

record export_run =
  ended :: outcome
  csv_file :: "(string \<times> string list list) option"

text \<open>A Go map read \<open>m[k]\<close>: the zero value when the key is absent.\<close>

definition map_index :: "(string \<rightharpoonup> string) \<Rightarrow> string \<Rightarrow> string" where
  "map_index m k = (case m k of Some v \<Rightarrow> v | None \<Rightarrow> [])"

text \<open>The loop over \<open>repos\<close>: the variables collected and the two counters.\<close>

fun fetch_repositories ::
  "(nat \<Rightarrow> remote) \<Rightarrow> string \<Rightarrow> string \<Rightarrow> string \<Rightarrow> nat \<Rightarrow> string list \<Rightarrow>
   (string \<rightharpoonup> string) list \<times> int \<times> int \<Rightarrow> (string \<rightharpoonup> string) list \<times> int \<times> int" where
  "fetch_repositories rms organization token hostname i [] acc = acc"
| "fetch_repositories rms organization token hostname i (repo # rest) (allVariables, successful, failed_repos) =
     fetch_repositories rms organization token hostname (Suc i) rest
       (case FetchRepoVariables (rms i) organization repo token [hostname] of
          Inl err \<Rightarrow> (allVariables, successful, failed_repos + 1)
        | Inr repoVariables \<Rightarrow>
            if length repoVariables > 0 then (allVariables @ repoVariables, successful + 1, failed_repos)
            else (allVariables, successful + 1, failed_repos))"

text \<open>
  The loop that writes the variables: \<open>n\<close> numbers the calls of \<open>writer.Write\<close>, \<open>written\<close> are
  the rows written so far.
\<close>

fun write_variables ::
  "(nat \<Rightarrow> go_error option) \<Rightarrow> nat \<Rightarrow> (string \<rightharpoonup> string) list \<Rightarrow> string list list \<Rightarrow>
   go_error option \<times> string list list" where
  "write_variables write_error n [] written = (None, written)"
| "write_variables write_error n (variable # rest) written =
     (case variable ''Name'' of
        Some name \<Rightarrow>
          if name \<noteq> [] then
            (let val = map_index variable ''Value''; scope = map_index variable ''Scope'';
                 visibility = map_index variable ''Visibility''
             in case write_error n of
                  Some err \<Rightarrow> (Some (Errorf_w ''failed to write variable to CSV: '' err), written)
                | None \<Rightarrow>
                    write_variables write_error (Suc n) rest (written @ [[name, val, scope, visibility]]))
          else write_variables write_error n rest written
      | None \<Rightarrow> write_variables write_error n rest written)"

definition ExportVariables :: "export_env \<Rightarrow> export_run option" where
  "ExportVariables env =
     (let organization = viper_source_organization env; token = viper_source_token env;
          hostname = viper_source_hostname env
      in if organization = [] \<or> token = [] then
           Some \<lparr>ended = Returned (Some (Errorf
                   ''missing required environment variables: GHMV_SOURCE_ORGANIZATION, GHMV_SOURCE_TOKEN, or VARIABLES_CSV_FILE'')),
                 csv_file = None\<rparr>
         else
           (let orgVariables =
                  (case FetchOrgVariables (org_remote env) organization token [hostname] of
                     Inl err \<Rightarrow> []
                   | Inr vars \<Rightarrow> vars)
            in case FetchAllRepositories (list_remote env) organization token [hostname] of
                 None \<Rightarrow> None
               | Some (Inl err) \<Rightarrow>
                   Some \<lparr>ended = Returned (Some (Errorf_w ''failed to fetch repositories: '' err)),
                         csv_file = None\<rparr>
               | Some (Inr repos) \<Rightarrow>
                   (case fetch_repositories (repo_remote env) organization token hostname 0 repos
                           (orgVariables, 0, 0) of
                      (allVariables, successful, failed_repos) \<Rightarrow>
                        if length allVariables = 0 then Some \<lparr>ended = Returned None, csv_file = None\<rparr>
                        else
                          (let outputFile = organization @ ''_variables.csv'' in
                           case os_Create_error env of
                             Some err \<Rightarrow>
                               Some \<lparr>ended = Returned (Some (Errorf_w
                                       (''cannot create file '' @ outputFile @ '': '') err)),
                                     csv_file = None\<rparr>
                           | None \<Rightarrow>
                               (case writer_Write_error env 0 of
                                  Some err \<Rightarrow>
                                    Some \<lparr>ended = Returned (Some (Errorf_w
                                            ''failed to write CSV header: '' err)),
                                          csv_file = Some (outputFile, [])\<rparr>
                                | None \<Rightarrow>
                                    (case write_variables (writer_Write_error env) 1 allVariables
                                            [[''Name'', ''Value'', ''Scope'', ''Visibility'']] of
                                       (Some err, written) \<Rightarrow>
                                         Some \<lparr>ended = Returned (Some err),
                                               csv_file = Some (outputFile, written)\<rparr>
                                     | (None, written) \<Rightarrow>
                                         Some \<lparr>ended = (if failed_repos > 0 then Exited 1
                                                         else Returned None),
                                               csv_file = Some (outputFile, written)\<rparr>))))))"

section \<open>Proxy selection (buildProxyFunction)\<close>

record ProxyConfig =
  HTTPProxy :: string
  HTTPSProxy :: string
  NoProxy :: string

text \<open>The two fields of \<open>req.URL\<close> that the proxy function reads.\<close>

record request =
  Scheme :: string
  Host :: string

text \<open>
  \<open>strings.Split(s, sep)\<close> for a separator of one byte: the substrings between the
  separators, a single element when the separator does not occur.
\<close>

fun Split :: "string \<Rightarrow> char \<Rightarrow> string list" where
  "Split [] sep = [[]]"
| "Split (c # cs) sep =
     (if c = sep then [] # Split cs sep
      else (case Split cs sep of w # ws \<Rightarrow> (c # w) # ws | [] \<Rightarrow> [[c]]))"

text \<open>
  \<open>strings.TrimSpace\<close>: the white space of Unicode (\<open>unicode.IsSpace\<close>) is removed from
  both ends. A Go string is a sequence of bytes holding UTF-8, so each white space rune
  is listed by its encoding.
\<close>

definition space_runes :: "string list" where
  "space_runes =
     [[CHR 0x09], [CHR 0x0A], [CHR 0x0B], [CHR 0x0C], [CHR 0x0D], [CHR 0x20],
      [CHR 0xC2, CHR 0x85], [CHR 0xC2, CHR 0xA0], [CHR 0xE1, CHR 0x9A, CHR 0x80],
      [CHR 0xE2, CHR 0x80, CHR 0x80], [CHR 0xE2, CHR 0x80, CHR 0x81],
      [CHR 0xE2, CHR 0x80, CHR 0x82], [CHR 0xE2, CHR 0x80, CHR 0x83],
      [CHR 0xE2, CHR 0x80, CHR 0x84], [CHR 0xE2, CHR 0x80, CHR 0x85],
      [CHR 0xE2, CHR 0x80, CHR 0x86], [CHR 0xE2, CHR 0x80, CHR 0x87],
      [CHR 0xE2, CHR 0x80, CHR 0x88], [CHR 0xE2, CHR 0x80, CHR 0x89],
      [CHR 0xE2, CHR 0x80, CHR 0x8A], [CHR 0xE2, CHR 0x80, CHR 0xA8],
      [CHR 0xE2, CHR 0x80, CHR 0xA9], [CHR 0xE2, CHR 0x80, CHR 0xAF],
      [CHR 0xE2, CHR 0x81, CHR 0x9F], [CHR 0xE3, CHR 0x80, CHR 0x80]]"

text \<open>The length of the rune of \<open>runes\<close> that \<open>s\<close> starts with, 0 when there is none.\<close>

fun leading_rune :: "string list \<Rightarrow> string \<Rightarrow> nat" where
  "leading_rune [] s = 0"
| "leading_rune (r # rs) s =
     (if r \<noteq> [] \<and> take (length r) s = r then length r else leading_rune rs s)"

function trim_leading :: "string list \<Rightarrow> string \<Rightarrow> string" where
  "trim_leading runes s =
     (if leading_rune runes s = 0 then s else trim_leading runes (drop (leading_rune runes s) s))"
  by pat_completeness auto

lemma leading_rune_le_length: "leading_rune runes s \<le> length s"
proof (induction runes)
  case Nil
  show ?case by simp
next
  case (Cons r rs)
  show ?case
  proof (cases "r \<noteq> [] \<and> take (length r) s = r")
    case True
    then have "length r = length (take (length r) s)" by simp
    also have "\<dots> \<le> length s" by simp
    finally show ?thesis using True by simp
  next
    case False
    then show ?thesis using Cons.IH by auto
  qed
qed

termination trim_leading
proof (relation "measure (\<lambda>(runes, s). length s)")
  show "wf (measure (\<lambda>(runes, s). length s))" by simp
next
  fix runes :: "string list" and s :: string
  assume "leading_rune runes s \<noteq> 0"
  moreover have "leading_rune runes s \<le> length s" by (rule leading_rune_le_length)
  ultimately show "((runes, drop (leading_rune runes s) s), (runes, s)) \<in> measure (\<lambda>(runes, s). length s)"
    by simp
qed

declare trim_leading.simps [simp del]

definition TrimSpace :: "string \<Rightarrow> string" where
  "TrimSpace s = rev (trim_leading (map rev space_runes) (rev (trim_leading space_runes s)))"

text \<open>
  The loop over \<open>noProxyURLs\<close>, which returns from the proxy function at the first entry
  that equals the host once trimmed: \<open>True\<close> when it returns there.
\<close>

fun no_proxy_match :: "string list \<Rightarrow> string \<Rightarrow> bool" where
  "no_proxy_match [] reqHost = False"
| "no_proxy_match (noProxy # rest) reqHost =
     (if TrimSpace noProxy = reqHost then True else no_proxy_match rest reqHost)"

text \<open>
  The function that \<open>buildProxyFunction\<close> returns, applied to a request. Its result is
  Go's pair \<open>(*url.URL, error)\<close>; \<open>url_Parse\<close> stands for \<open>url.Parse\<close> of the standard
  library, whose result is passed on as it is.
\<close>

definition buildProxyFunction ::
  "(string \<Rightarrow> 'u option \<times> go_error option) \<Rightarrow> ProxyConfig option \<Rightarrow> request \<Rightarrow>
   'u option \<times> go_error option" where
  "buildProxyFunction url_Parse proxyConfig req =
     (case proxyConfig of
        None \<Rightarrow> (None, None)
      | Some cfg \<Rightarrow>
          if NoProxy cfg \<noteq> [] \<and> no_proxy_match (Split (NoProxy cfg) CHR '','') (Host req) then
            (None, None)
          else if Scheme req = ''https'' \<and> HTTPSProxy cfg \<noteq> [] then url_Parse (HTTPSProxy cfg)
          else if Scheme req = ''http'' \<and> HTTPProxy cfg \<noteq> [] then url_Parse (HTTPProxy cfg)
          else (None, None))"

section \<open>The existence check as the specification words it\<close>

text \<open>
  The specification describes the existence check as a repository lookup "itself wrapped
  in Retry Policy", any lookup failure counting as "does not exist". This definition
  follows those words, for comparison with \<open>doesRepositoryExist\<close> above: the lookup is the
  operation of the retry policy, and the repository exists when the policy succeeds and
  the last lookup answered 200.
\<close>

definition spec_doesRepositoryExist_with_retry ::
  "remote \<Rightarrow> string \<Rightarrow> string \<Rightarrow> string \<Rightarrow> string list \<Rightarrow> (bool \<times> go_error option) \<times> api_call list" where
  "spec_doesRepositoryExist_with_retry rm org repo token hostname =
     (case initializeGitHubClient rm \<lparr>Token = token, Hostname = extractHostname hostname\<rparr> of
        Inl err \<Rightarrow> ((False, Some (Errorf_w ''failed to initialize GitHub client: '' err)), [])
      | Inr client \<Rightarrow>
          (let run = retryWithDefaultContext (viper_retry rm) (retry_ctx_done rm)
                       (\<lambda>n. case Repositories_Get rm org repo n of
                               GetError err \<Rightarrow> Some err
                             | GetResponse StatusCode \<Rightarrow> None);
               looked_up = replicate (attempts run) (GetRepository org repo)
           in case result run of
                Some err \<Rightarrow> ((False, None), looked_up)
              | None \<Rightarrow>
                  ((Repositories_Get rm org repo (attempts run) = GetResponse 200, None), looked_up)))"

section \<open>Example environments\<close>

text \<open>
  A remote whose repository lookup fails on the first invocation and answers 200 from
  the second on; every other call succeeds at once.
\<close>

definition flaky_lookup_remote :: remote where
  "flaky_lookup_remote =
     \<lparr>url_Parse_error = (\<lambda>h. None),
      WithEnterpriseURLs_error = (\<lambda>h. None),
      Repositories_Get = (\<lambda>org repo n. if n = 1 then GetError (Errorf ''timeout'') else GetResponse 200),
      Actions_CreateOrgVariable = (\<lambda>org v n. None),
      Actions_CreateRepoVariable = (\<lambda>org repo v n. None),
      Actions_ListOrgVariables = (\<lambda>org n. (Some \<lparr>Variables = []\<rparr>, None)),
      Actions_ListRepoVariables = (\<lambda>org repo n. (Some \<lparr>Variables = []\<rparr>, None)),
      Repositories_ListByOrg = (\<lambda>org n opts. (Some [], None, None)),
      retry_ctx_done = (\<lambda>n. None),
      viper_retry = \<lparr>RETRY_MAX = 3, RETRY_DELAY = None\<rparr>\<rparr>"

text \<open>A remote where every repository exists and every call succeeds at once.\<close>

definition steady_remote :: remote where
  "steady_remote = flaky_lookup_remote\<lparr>Repositories_Get := (\<lambda>org repo n. GetResponse 200)\<rparr>"

section \<open>Properties of the retry policy\<close>

lemma backoff_upt_shift:
  "map (\<lambda>i. (d::duration) * push_bit (a + i - 1) 1) [0..<Suc k] =
     (d * push_bit (a - 1) 1) # map (\<lambda>i. d * push_bit (Suc a + i - 1) 1) [0..<k]"
  by (simp add: upt_conv_Cons map_Suc_upt [symmetric] del: upt_Suc)

lemma retry_loop_failures:
  assumes "\<forall>i<k. operation (a + i) \<noteq> None \<and> ctx_done (a + i) = None"
    and "a + k \<le> m"
  shows "retry_loop operation ctx_done m d a le c ws =
           retry_loop operation ctx_done m d (a + k)
             (if k = 0 then le else operation (a + k - 1)) (c + k)
             (ws @ map (\<lambda>i. d * push_bit (a + i - 1) 1) [0..<k])"
  using assms
proof (induction k arbitrary: a le c ws)
  case 0
  then show ?case by simp
next
  case (Suc k)
  from Suc.prems(1) obtain e where e: "operation a = Some e" and cd: "ctx_done a = None"
    by force
  have lt: "a < m" using Suc.prems(2) by simp
  have step: "retry_loop operation ctx_done m d a le c ws =
      retry_loop operation ctx_done m d (Suc a) (Some e) (Suc c) (ws @ [d * push_bit (a - 1) 1])"
    using e cd lt by (subst retry_loop.simps) simp
  have IH: "retry_loop operation ctx_done m d (Suc a) (Some e) (Suc c) (ws @ [d * push_bit (a - 1) 1]) =
      retry_loop operation ctx_done m d (Suc a + k)
        (if k = 0 then Some e else operation (Suc a + k - 1)) (Suc c + k)
        ((ws @ [d * push_bit (a - 1) 1]) @ map (\<lambda>i. d * push_bit (Suc a + i - 1) 1) [0..<k])"
  proof (rule Suc.IH)
    show "\<forall>i<k. operation (Suc a + i) \<noteq> None \<and> ctx_done (Suc a + i) = None"
      using Suc.prems(1) by (metis Suc_less_eq add_Suc_shift)
    show "Suc a + k \<le> m" using Suc.prems(2) by simp
  qed
  have le': "(if k = 0 then Some e else operation (Suc a + k - 1)) = operation (a + Suc k - 1)"
    using e by (cases k) simp_all
  show ?case unfolding step IH backoff_upt_shift le' by simp
qed

lemma retry_loop_success:
  assumes "operation a = None" and "a \<le> m"
  shows "retry_loop operation ctx_done m d a le c ws =
           \<lparr>result = None, attempts = Suc c, waits = ws\<rparr>"
  using assms by (subst retry_loop.simps) simp

lemma retry_loop_cancelled:
  assumes "operation a = Some e" and "a < m" and "ctx_done a = Some cerr"
  shows "retry_loop operation ctx_done m d a le c ws =
           \<lparr>result = Some (Errorf_w ''operation cancelled: '' cerr), attempts = Suc c,
            waits = ws @ [d * push_bit (a - 1) 1]\<rparr>"
  using assms by (subst retry_loop.simps) simp

lemma retry_loop_exhausted:
  assumes "operation m = Some e"
  shows "retry_loop operation ctx_done m d m le c ws =
           \<lparr>result = Some (Errorf_w (''operation failed after '' @ fmt_d (int m) @ '' attempts: '') e),
            attempts = Suc c, waits = ws\<rparr>"
  using assms by (subst retry_loop.simps, simp, subst retry_loop.simps, simp)

lemma push_bit_one_duration: "push_bit n (1::duration) = 2 ^ n"
  by (simp add: push_bit_eq_mult)

lemma maxRetries_of_pos: "0 < maxRetries_of cfg"
  by (simp add: maxRetries_of_def)

lemma sint_backoff:
  assumes "- (2 ^ 63) \<le> sint (d::duration) * 2 ^ i" and "sint d * 2 ^ i < 2 ^ 63"
  shows "sint (d * 2 ^ i) = sint d * 2 ^ i"
proof -
  have "d * 2 ^ i = word_of_int (sint d * 2 ^ i)"
    by simp
  then have "sint (d * 2 ^ i) = signed_take_bit 63 (sint d * 2 ^ i)"
    by (simp only: sint_sbintrunc') simp
  also have "\<dots> = sint d * 2 ^ i"
    using assms by (simp add: signed_take_bit_int_eq_self)
  finally show ?thesis .
qed


lemma retry_unfold:
  "retryWithExponentialBackoff cfg ctx_done operation =
     retry_loop operation ctx_done (nat (maxRetries_of cfg)) (retryDelay_of cfg) 1 None 0 []"
  by (simp add: retryWithExponentialBackoff_def)

text \<open>
  Claim C1. An operation that fails on its first \<open>k\<close> invocations and succeeds on the next,
  with \<open>k\<close> below \<open>maxRetries\<close>, and no backoff wait interrupted by the context: the policy
  returns nil after exactly \<open>k + 1\<close> invocations, and the waits entered are
  \<open>retryDelay * 2^0, ..., retryDelay * 2^(k-1)\<close> in the arithmetic of \<open>time.Duration\<close>. Where
  none of these products leaves the range of \<open>int64\<close>, they are these products as
  integers.
\<close>

theorem retry_succeeds_after_k_failures:
  assumes k: "int k < maxRetries_of cfg"
    and fails: "\<forall>i. 1 \<le> i \<and> i \<le> k \<longrightarrow> operation i \<noteq> None"
    and succeeds: "operation (Suc k) = None"
    and uninterrupted: "\<forall>i. 1 \<le> i \<and> i \<le> k \<longrightarrow> ctx_done i = None"
  shows "result (retryWithExponentialBackoff cfg ctx_done operation) = None \<and>
         attempts (retryWithExponentialBackoff cfg ctx_done operation) = k + 1 \<and>
         waits (retryWithExponentialBackoff cfg ctx_done operation) =
           map (\<lambda>i. retryDelay_of cfg * 2 ^ i) [0..<k] \<and>
         ((\<forall>i<k. - (2 ^ 63) \<le> sint (retryDelay_of cfg) * 2 ^ i \<and>
                  sint (retryDelay_of cfg) * 2 ^ i < 2 ^ 63) \<longrightarrow>
          map sint (waits (retryWithExponentialBackoff cfg ctx_done operation)) =
            map (\<lambda>i. sint (retryDelay_of cfg) * 2 ^ i) [0..<k])"
proof -
  let ?m = "nat (maxRetries_of cfg)"
  let ?d = "retryDelay_of cfg"
  have pre: "\<forall>i<k. operation (1 + i) \<noteq> None \<and> ctx_done (1 + i) = None"
    using fails uninterrupted by simp
  have bound: "1 + k \<le> ?m" using k by linarith
  have "retry_loop operation ctx_done ?m ?d 1 None 0 [] =
          retry_loop operation ctx_done ?m ?d (1 + k)
            (if k = 0 then None else operation (1 + k - 1)) (0 + k)
            ([] @ map (\<lambda>i. ?d * push_bit (1 + i - 1) 1) [0..<k])"
    by (rule retry_loop_failures [OF pre bound])
  also have "\<dots> = \<lparr>result = None, attempts = Suc (0 + k),
                      waits = [] @ map (\<lambda>i. ?d * push_bit (1 + i - 1) 1) [0..<k]\<rparr>"
    by (rule retry_loop_success) (use succeeds bound in simp_all)
  finally have run: "retryWithExponentialBackoff cfg ctx_done operation =
      \<lparr>result = None, attempts = Suc k, waits = map (\<lambda>i. ?d * 2 ^ i) [0..<k]\<rparr>"
    by (simp add: retry_unfold push_bit_one_duration)
  have "map sint (map (\<lambda>i. ?d * 2 ^ i) [0..<k]) = map (\<lambda>i. sint ?d * 2 ^ i) [0..<k]"
    if "\<forall>i<k. - (2 ^ 63) \<le> sint ?d * 2 ^ i \<and> sint ?d * 2 ^ i < 2 ^ 63"
    using that by (simp add: sint_backoff)
  then show ?thesis unfolding run by simp
qed

theorem retry_succeeds_after_k_failures_witness:
  "(\<lambda>n. if n < 3 then Some (Errorf ''boom'') else None) (1::nat) \<noteq> None \<and>
   (\<lambda>n. if n < 3 then Some (Errorf ''boom'') else None) (2::nat) \<noteq> None \<and>
   (\<lambda>n. if n < 3 then Some (Errorf ''boom'') else None) (3::nat) = None \<and>
   result (retryWithExponentialBackoff \<lparr>RETRY_MAX = 0, RETRY_DELAY = None\<rparr> (\<lambda>n. None)
     (\<lambda>n. if n < 3 then Some (Errorf ''boom'') else None)) = None \<and>
   attempts (retryWithExponentialBackoff \<lparr>RETRY_MAX = 0, RETRY_DELAY = None\<rparr> (\<lambda>n. None)
     (\<lambda>n. if n < 3 then Some (Errorf ''boom'') else None)) = 3 \<and>
   waits (retryWithExponentialBackoff \<lparr>RETRY_MAX = 0, RETRY_DELAY = None\<rparr> (\<lambda>n. None)
     (\<lambda>n. if n < 3 then Some (Errorf ''boom'') else None)) = [1000000000, 2000000000] \<and>
   map sint (waits (retryWithExponentialBackoff \<lparr>RETRY_MAX = 0, RETRY_DELAY = None\<rparr> (\<lambda>n. None)
     (\<lambda>n. if n < 3 then Some (Errorf ''boom'') else None))) = [1000000000, 2000000000]"
proof -
  let ?cfg = "\<lparr>RETRY_MAX = 0, RETRY_DELAY = None\<rparr>"
  let ?op = "\<lambda>n::nat. if n < 3 then Some (Errorf ''boom'') else None"
  let ?ctx = "\<lambda>n::nat. None :: go_error option"
  have d: "retryDelay_of ?cfg = 1000000000"
    by (simp add: retryDelay_of_def Second_def)
  have h1: "int 2 < maxRetries_of ?cfg" by (simp add: maxRetries_of_def)
  have h2: "\<forall>i. 1 \<le> i \<and> i \<le> 2 \<longrightarrow> ?op i \<noteq> None" by simp
  have h3: "?op (Suc 2) = None" by simp
  have h4: "\<forall>i. 1 \<le> i \<and> i \<le> 2 \<longrightarrow> ?ctx i = None" by simp
  note t = retry_succeeds_after_k_failures [of 2 ?cfg ?op ?ctx, OF h1 h2 h3 h4]
  have two: "[0..<2] = [0, Suc 0]" by (simp add: numeral_2_eq_2)
  have fits: "\<forall>i<2. - (2 ^ 63) \<le> sint (retryDelay_of ?cfg) * 2 ^ i \<and>
                     sint (retryDelay_of ?cfg) * 2 ^ i < 2 ^ 63"
  proof (intro allI impI)
    fix i :: nat
    assume "i < 2"
    then have "i = 0 \<or> i = 1" by arith
    then show "- (2 ^ 63) \<le> sint (retryDelay_of ?cfg) * 2 ^ i \<and>
               sint (retryDelay_of ?cfg) * 2 ^ i < 2 ^ 63"
      by (auto simp add: d)
  qed
  from t fits have s: "map sint (waits (retryWithExponentialBackoff ?cfg ?ctx ?op)) =
      map (\<lambda>i. sint (retryDelay_of ?cfg) * 2 ^ i) [0..<2]"
    by blast
  from t have w: "waits (retryWithExponentialBackoff ?cfg ?ctx ?op) =
      map (\<lambda>i. retryDelay_of ?cfg * 2 ^ i) [0..<2]"
    by blast
  from t have r: "result (retryWithExponentialBackoff ?cfg ?ctx ?op) = None"
    and a: "attempts (retryWithExponentialBackoff ?cfg ?ctx ?op) = 2 + 1"
    by blast+
  show ?thesis
    unfolding r a w [unfolded two d] s [unfolded two d] by simp
qed

text \<open>
  Claim C2. An operation that fails on every invocation, and no backoff wait interrupted:
  the policy invokes it exactly \<open>maxRetries\<close> times and returns an error that wraps the
  error of the last invocation and whose message states \<open>maxRetries\<close>.
\<close>

theorem retry_exhausts_after_max_attempts:
  assumes fails: "\<forall>i. 1 \<le> i \<and> int i \<le> maxRetries_of cfg \<longrightarrow> operation i \<noteq> None"
    and uninterrupted: "\<forall>i. 1 \<le> i \<and> int i < maxRetries_of cfg \<longrightarrow> ctx_done i = None"
  shows "\<exists>err lastErr.
           result (retryWithExponentialBackoff cfg ctx_done operation) = Some err \<and>
           operation (nat (maxRetries_of cfg)) = Some lastErr \<and>
           Unwrap err = Some lastErr \<and>
           Error err = ''operation failed after '' @ fmt_d (maxRetries_of cfg) @ '' attempts: '' @
                       Error lastErr \<and>
           int (attempts (retryWithExponentialBackoff cfg ctx_done operation)) = maxRetries_of cfg \<and>
           waits (retryWithExponentialBackoff cfg ctx_done operation) =
             map (\<lambda>i. retryDelay_of cfg * 2 ^ i) [0..<nat (maxRetries_of cfg) - 1]"
proof -
  let ?m = "nat (maxRetries_of cfg)"
  let ?d = "retryDelay_of cfg"
  have m: "1 \<le> ?m" using maxRetries_of_pos [of cfg] by linarith
  obtain k where k: "?m = Suc k" using m by (cases ?m) simp_all
  have mk: "maxRetries_of cfg = int (Suc k)"
    using k maxRetries_of_pos [of cfg] by linarith
  have pre: "\<forall>i<k. operation (1 + i) \<noteq> None \<and> ctx_done (1 + i) = None"
    using fails uninterrupted by (simp add: mk)
  have bound: "1 + k \<le> ?m" using k by simp
  have "operation (Suc k) \<noteq> None" using fails by (simp add: mk)
  then obtain e where e: "operation ?m = Some e" using k by auto
  have "retry_loop operation ctx_done ?m ?d 1 None 0 [] =
          retry_loop operation ctx_done ?m ?d (1 + k)
            (if k = 0 then None else operation (1 + k - 1)) (0 + k)
            ([] @ map (\<lambda>i. ?d * push_bit (1 + i - 1) 1) [0..<k])"
    by (rule retry_loop_failures [OF pre bound])
  also have "\<dots> = retry_loop operation ctx_done ?m ?d ?m
            (if k = 0 then None else operation (1 + k - 1)) (0 + k)
            ([] @ map (\<lambda>i. ?d * push_bit (1 + i - 1) 1) [0..<k])"
    using k by simp
  also have "\<dots> = \<lparr>result = Some (Errorf_w (''operation failed after '' @ fmt_d (int ?m) @ '' attempts: '') e),
            attempts = Suc (0 + k), waits = [] @ map (\<lambda>i. ?d * push_bit (1 + i - 1) 1) [0..<k]\<rparr>"
    using e by (rule retry_loop_exhausted)
  finally have run: "retryWithExponentialBackoff cfg ctx_done operation =
      \<lparr>result = Some (Errorf_w (''operation failed after '' @ fmt_d (int ?m) @ '' attempts: '') e),
       attempts = ?m, waits = map (\<lambda>i. ?d * 2 ^ i) [0..<?m - 1]\<rparr>"
    using k by (simp add: retry_unfold push_bit_one_duration)
  have im: "int ?m = maxRetries_of cfg" using maxRetries_of_pos [of cfg] by simp
  show ?thesis
    unfolding run using e im by (simp add: Errorf_w_def)
qed

theorem retry_exhausts_after_max_attempts_witness:
  "result (retryWithExponentialBackoff \<lparr>RETRY_MAX = 2, RETRY_DELAY = Some 5\<rparr> (\<lambda>n. None)
     (\<lambda>n. Some (Errorf ''boom''))) =
     Some (GoError ''operation failed after 2 attempts: boom'' (Some (GoError ''boom'' None))) \<and>
   attempts (retryWithExponentialBackoff \<lparr>RETRY_MAX = 2, RETRY_DELAY = Some 5\<rparr> (\<lambda>n. None)
     (\<lambda>n. Some (Errorf ''boom''))) = 2 \<and>
   waits (retryWithExponentialBackoff \<lparr>RETRY_MAX = 2, RETRY_DELAY = Some 5\<rparr> (\<lambda>n. None)
     (\<lambda>n. Some (Errorf ''boom''))) = [5]"
proof -
  let ?cfg = "\<lparr>RETRY_MAX = 2, RETRY_DELAY = Some 5\<rparr>"
  let ?op = "\<lambda>n::nat. Some (Errorf ''boom'')"
  let ?ctx = "\<lambda>n::nat. None :: go_error option"
  have m: "maxRetries_of ?cfg = 2" by (simp add: maxRetries_of_def)
  have d: "retryDelay_of ?cfg = 5" by (simp add: retryDelay_of_def)
  have h1: "\<forall>i. 1 \<le> i \<and> int i \<le> maxRetries_of ?cfg \<longrightarrow> ?op i \<noteq> None" by simp
  have h2: "\<forall>i. 1 \<le> i \<and> int i < maxRetries_of ?cfg \<longrightarrow> ?ctx i = None" by simp
  from retry_exhausts_after_max_attempts [of ?cfg ?op ?ctx, OF h1 h2]
  obtain err lastErr where
    r: "result (retryWithExponentialBackoff ?cfg ?ctx ?op) = Some err"
    and l: "?op (nat (maxRetries_of ?cfg)) = Some lastErr"
    and u: "Unwrap err = Some lastErr"
    and e: "Error err = ''operation failed after '' @ fmt_d (maxRetries_of ?cfg) @ '' attempts: '' @
              Error lastErr"
    and a: "int (attempts (retryWithExponentialBackoff ?cfg ?ctx ?op)) = maxRetries_of ?cfg"
    and w: "waits (retryWithExponentialBackoff ?cfg ?ctx ?op) =
              map (\<lambda>i. retryDelay_of ?cfg * 2 ^ i) [0..<nat (maxRetries_of ?cfg) - 1]"
    by blast
  from l have lastErr: "lastErr = GoError ''boom'' None" by (simp add: Errorf_def)
  have two: "fmt_d 2 = ''2''" by (simp add: fmt_d_def fmt_nat.simps digit_char_def)
  have "err = GoError ''operation failed after 2 attempts: boom'' (Some (GoError ''boom'' None))"
    using u e by (cases err) (simp add: lastErr m two)
  moreover have "attempts (retryWithExponentialBackoff ?cfg ?ctx ?op) = 2"
    using a by (simp add: m)
  moreover have "waits (retryWithExponentialBackoff ?cfg ?ctx ?op) = [5]"
    using w by (simp add: m d)
  ultimately show ?thesis using r by simp
qed

text \<open>
  Claim C3. The context fires during the backoff wait after the \<open>j\<close>-th failed attempt (the
  \<open>select\<close> takes the \<open>ctx.Done()\<close> case): the policy returns at once the error
  \<open>operation cancelled\<close> wrapping \<open>ctx.Err()\<close>, having invoked the operation \<open>j\<close> times, fewer
  than \<open>maxRetries\<close>.
\<close>

theorem retry_cancelled_during_backoff:
  assumes j: "1 \<le> j" "int j < maxRetries_of cfg"
    and fails: "\<forall>i. 1 \<le> i \<and> i \<le> j \<longrightarrow> operation i \<noteq> None"
    and uninterrupted: "\<forall>i. 1 \<le> i \<and> i < j \<longrightarrow> ctx_done i = None"
    and fired: "ctx_done j = Some cerr"
  shows "result (retryWithExponentialBackoff cfg ctx_done operation) =
           Some (Errorf_w ''operation cancelled: '' cerr) \<and>
         attempts (retryWithExponentialBackoff cfg ctx_done operation) = j \<and>
         int (attempts (retryWithExponentialBackoff cfg ctx_done operation)) < maxRetries_of cfg \<and>
         waits (retryWithExponentialBackoff cfg ctx_done operation) =
           map (\<lambda>i. retryDelay_of cfg * 2 ^ i) [0..<j]"
proof -
  let ?m = "nat (maxRetries_of cfg)"
  let ?d = "retryDelay_of cfg"
  obtain k where k: "j = Suc k" using j(1) by (cases j) simp_all
  have pre: "\<forall>i<k. operation (1 + i) \<noteq> None \<and> ctx_done (1 + i) = None"
    using fails uninterrupted k by simp
  have lt: "j < ?m" using j(2) by linarith
  have bound: "1 + k \<le> ?m" using k lt by simp
  from fails k obtain e where e: "operation j = Some e" by auto
  have "retry_loop operation ctx_done ?m ?d 1 None 0 [] =
          retry_loop operation ctx_done ?m ?d (1 + k)
            (if k = 0 then None else operation (1 + k - 1)) (0 + k)
            ([] @ map (\<lambda>i. ?d * push_bit (1 + i - 1) 1) [0..<k])"
    by (rule retry_loop_failures [OF pre bound])
  also have "\<dots> = retry_loop operation ctx_done ?m ?d j
            (if k = 0 then None else operation (1 + k - 1)) k
            (map (\<lambda>i. ?d * push_bit (1 + i - 1) 1) [0..<k])"
    using k by simp
  also have "\<dots> = \<lparr>result = Some (Errorf_w ''operation cancelled: '' cerr), attempts = Suc k,
            waits = map (\<lambda>i. ?d * push_bit (1 + i - 1) 1) [0..<k] @ [?d * push_bit (j - 1) 1]\<rparr>"
    using e lt fired by (rule retry_loop_cancelled)
  finally have run: "retryWithExponentialBackoff cfg ctx_done operation =
      \<lparr>result = Some (Errorf_w ''operation cancelled: '' cerr), attempts = j,
       waits = map (\<lambda>i. ?d * 2 ^ i) [0..<j]\<rparr>"
    using k by (simp add: retry_unfold push_bit_one_duration)
  show ?thesis unfolding run using j(2) by simp
qed

theorem retry_cancelled_during_backoff_witness:
  "result (retryWithExponentialBackoff \<lparr>RETRY_MAX = 0, RETRY_DELAY = None\<rparr>
     (\<lambda>n. if n = 2 then Some (Errorf ''context deadline exceeded'') else None)
     (\<lambda>n. Some (Errorf ''boom''))) =
     Some (GoError ''operation cancelled: context deadline exceeded''
             (Some (GoError ''context deadline exceeded'' None))) \<and>
   attempts (retryWithExponentialBackoff \<lparr>RETRY_MAX = 0, RETRY_DELAY = None\<rparr>
     (\<lambda>n. if n = 2 then Some (Errorf ''context deadline exceeded'') else None)
     (\<lambda>n. Some (Errorf ''boom''))) = 2 \<and>
   maxRetries_of \<lparr>RETRY_MAX = 0, RETRY_DELAY = None\<rparr> = 3 \<and>
   waits (retryWithExponentialBackoff \<lparr>RETRY_MAX = 0, RETRY_DELAY = None\<rparr>
     (\<lambda>n. if n = 2 then Some (Errorf ''context deadline exceeded'') else None)
     (\<lambda>n. Some (Errorf ''boom''))) = [1000000000, 2000000000]"
proof -
  let ?cfg = "\<lparr>RETRY_MAX = 0, RETRY_DELAY = None\<rparr>"
  let ?op = "\<lambda>n::nat. Some (Errorf ''boom'')"
  let ?ctx = "\<lambda>n::nat. if n = 2 then Some (Errorf ''context deadline exceeded'') else None"
  have m: "maxRetries_of ?cfg = 3" by (simp add: maxRetries_of_def)
  have d: "retryDelay_of ?cfg = 1000000000" by (simp add: retryDelay_of_def Second_def)
  have two: "[0..<2] = [0, Suc 0]" by (simp add: numeral_2_eq_2)
  have h1: "1 \<le> (2::nat)" by simp
  have h2: "int 2 < maxRetries_of ?cfg" by (simp add: m)
  have h3: "\<forall>i. 1 \<le> i \<and> i \<le> 2 \<longrightarrow> ?op i \<noteq> None" by simp
  have h4: "\<forall>i. 1 \<le> i \<and> i < 2 \<longrightarrow> ?ctx i = None" by simp
  have h5: "?ctx 2 = Some (Errorf ''context deadline exceeded'')" by simp
  note t = retry_cancelled_during_backoff [of 2 ?cfg ?op ?ctx, OF h1 h2 h3 h4 h5]
  show ?thesis using t by (simp add: m d two Errorf_w_def Errorf_def)
qed

section \<open>Properties of the variable writer\<close>

lemma retry_attempts_success_first:
  "operation 1 = None \<Longrightarrow>
   retryWithDefaultContext cfg ctx_done operation = \<lparr>result = None, attempts = 1, waits = []\<rparr>"
  using maxRetries_of_pos [of cfg]
  by (simp add: retryWithDefaultContext_def retry_unfold retry_loop.simps)

lemma entity_types_differ: "EntityTypeRepository \<noteq> EntityTypeOrg"
  by (simp add: EntityTypeRepository_def EntityTypeOrg_def)

text \<open>
  Claim C4, as amended. The claim says that the existence check before a repository-scope
  creation is wrapped in the retry policy. It is not: \<open>doesRepositoryExist\<close> calls
  \<open>client.Repositories.Get\<close> once. For a lookup that fails once and would answer 200 on a
  second invocation, the function reports the repository as missing after one lookup,
  where the check of the claim looks it up twice and finds it; the writer then returns
  the does-not-exist error.
\<close>

theorem existence_check_not_retried_counterexample:
  "doesRepositoryExist flaky_lookup_remote ''org'' ''repo'' ''token'' [] =
     ((False, None), [GetRepository ''org'' ''repo'']) \<and>
   spec_doesRepositoryExist_with_retry flaky_lookup_remote ''org'' ''repo'' ''token'' [] =
     ((True, None), [GetRepository ''org'' ''repo'', GetRepository ''org'' ''repo'']) \<and>
   fst (addGitHubVariable flaky_lookup_remote EntityTypeRepository ''org'' ''repo'' ''VAR'' ''v'' []
          ''token'' []) = Some (Errorf (not_found_message ''repo'' ''org''))"
proof -
  have c: "initializeGitHubClient flaky_lookup_remote \<lparr>Token = ''token'', Hostname = extractHostname []\<rparr> =
     Inr \<lparr>Token = ''token'', Hostname = []\<rparr>"
    by (simp add: initializeGitHubClient_def extractHostname_def)
  have code: "doesRepositoryExist flaky_lookup_remote ''org'' ''repo'' ''token'' [] =
     ((False, None), [GetRepository ''org'' ''repo''])"
    by (simp add: doesRepositoryExist_def c) (simp add: flaky_lookup_remote_def)
  have run: "retryWithDefaultContext (viper_retry flaky_lookup_remote) (retry_ctx_done flaky_lookup_remote)
      (\<lambda>n. case Repositories_Get flaky_lookup_remote ''org'' ''repo'' n of
              GetError err \<Rightarrow> Some err | GetResponse StatusCode \<Rightarrow> None) =
      \<lparr>result = None, attempts = 2, waits = [1000000000]\<rparr>"
    by (simp add: flaky_lookup_remote_def retryWithDefaultContext_def retry_unfold
          maxRetries_of_def retryDelay_of_def Second_def retry_loop.simps)
  have spec: "spec_doesRepositoryExist_with_retry flaky_lookup_remote ''org'' ''repo'' ''token'' [] =
     ((True, None), [GetRepository ''org'' ''repo'', GetRepository ''org'' ''repo''])"
    by (simp add: spec_doesRepositoryExist_with_retry_def c run)
       (simp add: flaky_lookup_remote_def numeral_2_eq_2)
  have add: "fst (addGitHubVariable flaky_lookup_remote EntityTypeRepository ''org'' ''repo'' ''VAR'' ''v'' []
          ''token'' []) = Some (Errorf (not_found_message ''repo'' ''org''))"
    by (simp add: addGitHubVariable_def code)
  from code spec add show ?thesis by blast
qed

text \<open>
  What holds instead: for a repository-scope creation with non-empty organization, name
  and repository and a client that can be constructed, the existence check is a single
  lookup; it is the first remote call of the writer, no later call is a lookup, and
  creation calls follow only when that one lookup answered 200.
\<close>

theorem existence_check_is_one_lookup:
  assumes "org \<noteq> []" and "name \<noteq> []" and "repo \<noteq> []"
    and "initializeGitHubClient rm \<lparr>Token = token, Hostname = extractHostname hostname\<rparr> = Inr client"
  shows "snd (doesRepositoryExist rm org repo token hostname) = [GetRepository org repo] \<and>
         take 1 (snd (addGitHubVariable rm EntityTypeRepository org repo name val visibility token hostname)) =
           [GetRepository org repo] \<and>
         GetRepository org repo \<notin>
           set (drop 1 (snd (addGitHubVariable rm EntityTypeRepository org repo name val visibility token hostname))) \<and>
         (1 < length (snd (addGitHubVariable rm EntityTypeRepository org repo name val visibility token hostname)) \<longrightarrow>
            Repositories_Get rm org repo 1 = GetResponse 200)"
proof (cases "Repositories_Get rm org repo 1")
  case (GetError err)
  then have probe: "doesRepositoryExist rm org repo token hostname = ((False, None), [GetRepository org repo])"
    using assms(4) by (simp add: doesRepositoryExist_def)
  have "snd (addGitHubVariable rm EntityTypeRepository org repo name val visibility token hostname) =
          [GetRepository org repo]"
    using assms(1-3) by (simp add: addGitHubVariable_def probe)
  then show ?thesis using probe by simp
next
  case (GetResponse StatusCode)
  then have probe: "doesRepositoryExist rm org repo token hostname =
      ((StatusCode = 200, None), [GetRepository org repo])"
    using assms(4) by (simp add: doesRepositoryExist_def)
  show ?thesis
  proof (cases "StatusCode = 200")
    case False
    have "snd (addGitHubVariable rm EntityTypeRepository org repo name val visibility token hostname) =
            [GetRepository org repo]"
      using assms(1-3) False by (simp add: addGitHubVariable_def probe)
    then show ?thesis using probe by simp
  next
    case True
    have "\<exists>n variable.
      snd (addGitHubVariable rm EntityTypeRepository org repo name val visibility token hostname) =
         GetRepository org repo # replicate n (CreateRepoVariable org repo variable)"
      using assms True
      by (auto simp add: addGitHubVariable_def probe entity_types_differ Let_def split: option.splits)
    then obtain n variable where
      "snd (addGitHubVariable rm EntityTypeRepository org repo name val visibility token hostname) =
         GetRepository org repo # replicate n (CreateRepoVariable org repo variable)"
      by blast
    then show ?thesis using probe GetResponse True by simp
  qed
qed

theorem existence_check_is_one_lookup_witness:
  "initializeGitHubClient steady_remote \<lparr>Token = ''token'', Hostname = extractHostname []\<rparr> =
     Inr \<lparr>Token = ''token'', Hostname = []\<rparr> \<and>
   snd (doesRepositoryExist steady_remote ''org'' ''repo'' ''token'' []) = [GetRepository ''org'' ''repo''] \<and>
   addGitHubVariable steady_remote EntityTypeRepository ''org'' ''repo'' ''VAR'' ''v'' [] ''token'' [] =
     (None, [GetRepository ''org'' ''repo'',
             CreateRepoVariable ''org'' ''repo''
               \<lparr>Name = ''VAR'', Value = ''v'', Visibility = Some ''private''\<rparr>]) \<and>
   Repositories_Get steady_remote ''org'' ''repo'' 1 = GetResponse 200"
proof -
  let ?log = "snd (addGitHubVariable steady_remote EntityTypeRepository ''org'' ''repo'' ''VAR'' ''v'' []
                ''token'' [])"
  have c: "initializeGitHubClient steady_remote \<lparr>Token = ''token'', Hostname = extractHostname []\<rparr> =
     Inr \<lparr>Token = ''token'', Hostname = []\<rparr>"
    by (simp add: initializeGitHubClient_def extractHostname_def)
  have h: "''org'' \<noteq> []" "''VAR'' \<noteq> []" "''repo'' \<noteq> []" by simp_all
  note t = existence_check_is_one_lookup [OF h c, of "''v''" "[]"]
  have create: "Actions_CreateRepoVariable steady_remote ''org'' ''repo''
      \<lparr>Name = ''VAR'', Value = ''v'', Visibility = Some ''private''\<rparr> 1 = None"
    by (simp add: steady_remote_def flaky_lookup_remote_def)
  have g: "Repositories_Get steady_remote ''org'' ''repo'' 1 = GetResponse 200"
    by (simp add: steady_remote_def)
  have probe: "doesRepositoryExist steady_remote ''org'' ''repo'' ''token'' [] =
      ((True, None), [GetRepository ''org'' ''repo''])"
    using g by (simp add: doesRepositoryExist_def c)
  have retried: "retryWithDefaultContext (viper_retry steady_remote) (retry_ctx_done steady_remote)
      (Actions_CreateRepoVariable steady_remote ''org'' ''repo''
         \<lparr>Name = ''VAR'', Value = ''v'', Visibility = Some ''private''\<rparr>) =
      \<lparr>result = None, attempts = 1, waits = []\<rparr>"
    by (rule retry_attempts_success_first) (rule create)
  have run: "addGitHubVariable steady_remote EntityTypeRepository ''org'' ''repo'' ''VAR'' ''v'' [] ''token'' [] =
     (None, [GetRepository ''org'' ''repo'',
             CreateRepoVariable ''org'' ''repo''
               \<lparr>Name = ''VAR'', Value = ''v'', Visibility = Some ''private''\<rparr>])"
    by (simp add: addGitHubVariable_def probe c entity_types_differ defaultVariableVisibility_def
          retried Let_def)
  from t have "1 < length ?log \<longrightarrow> Repositories_Get steady_remote ''org'' ''repo'' 1 = GetResponse 200"
    by blast
  then have "Repositories_Get steady_remote ''org'' ''repo'' 1 = GetResponse 200"
    by (simp add: run)
  with t c run show ?thesis by simp
qed

text \<open>
  Claim C5. Once the client is constructed, a failure of the lookup makes the existence
  check return \<open>(false, nil)\<close>, and the check returns a nil error whatever the lookup
  returns.
\<close>

theorem lookup_failure_means_not_exists:
  assumes "initializeGitHubClient rm \<lparr>Token = token, Hostname = extractHostname hostname\<rparr> = Inr client"
  shows "(\<forall>err. Repositories_Get rm org repo 1 = GetError err \<longrightarrow>
            fst (doesRepositoryExist rm org repo token hostname) = (False, None)) \<and>
         snd (fst (doesRepositoryExist rm org repo token hostname)) = None"
  using assms by (simp add: doesRepositoryExist_def split: get_result.splits)

theorem lookup_failure_means_not_exists_witness:
  "initializeGitHubClient flaky_lookup_remote \<lparr>Token = ''token'', Hostname = extractHostname []\<rparr> =
     Inr \<lparr>Token = ''token'', Hostname = []\<rparr> \<and>
   Repositories_Get flaky_lookup_remote ''org'' ''repo'' 1 = GetError (Errorf ''timeout'') \<and>
   fst (doesRepositoryExist flaky_lookup_remote ''org'' ''repo'' ''token'' []) = (False, None)"
proof -
  have c: "initializeGitHubClient flaky_lookup_remote \<lparr>Token = ''token'', Hostname = extractHostname []\<rparr> =
     Inr \<lparr>Token = ''token'', Hostname = []\<rparr>"
    by (simp add: initializeGitHubClient_def extractHostname_def)
  have g: "Repositories_Get flaky_lookup_remote ''org'' ''repo'' 1 = GetError (Errorf ''timeout'')"
    by (simp add: flaky_lookup_remote_def)
  from lookup_failure_means_not_exists [OF c, of "''org''" "''repo''"] g
  have "fst (doesRepositoryExist flaky_lookup_remote ''org'' ''repo'' ''token'' []) = (False, None)"
    by blast
  with c g show ?thesis by blast
qed

end
